theory Spec2Isabelle
  imports Main
begin

section \<open>JavaScript values\<close>

text \<open>
  The values that travel through the server are parsed JSON: the inbound request body
  (\<^verbatim>\<open>req.body\<close> after \<^verbatim>\<open>express.json()\<close>), the upstream response body
  (\<^verbatim>\<open>response.data\<close> of axios) and the object handed to \<^verbatim>\<open>res.json\<close>.
  An object is the list of its own properties in insertion order, with distinct keys, as
  \<^verbatim>\<open>JSON.parse\<close> and an object literal produce it. Numbers are restricted to the
  integers: the only thing the code asks of a number is whether it is zero.
  The JavaScript value \<^verbatim>\<open>undefined\<close> is \<open>None\<close> of an option type.
\<close>

datatype json =
    JNull
  | JBool bool
  | JNum int
  | JStr string
  | JArr "json list"
  | JObj "(string \<times> json) list"

text \<open>ToBoolean, as \<^verbatim>\<open>!v\<close> and \<^verbatim>\<open>v || w\<close> apply it.\<close>

fun truthy :: "json \<Rightarrow> bool" where
  "truthy JNull = False"
| "truthy (JBool b) = b"
| "truthy (JNum n) = (n \<noteq> 0)"
| "truthy (JStr s) = (s \<noteq> [])"
| "truthy (JArr xs) = True"
| "truthy (JObj kvs) = True"

fun truthy_opt :: "json option \<Rightarrow> bool" where
  "truthy_opt None = False"
| "truthy_opt (Some v) = truthy v"

text \<open>ToBoolean of a value that is a string or \<^verbatim>\<open>undefined\<close> (an environment
  variable, a route parameter).\<close>

fun truthy_string :: "string option \<Rightarrow> bool" where
  "truthy_string None = False"
| "truthy_string (Some s) = (s \<noteq> [])"

text \<open>
  \<^verbatim>\<open>v?.k\<close> for a key \<open>k\<close> that no prototype defines (\<^verbatim>\<open>message\<close>,
  \<^verbatim>\<open>user_id\<close>): an own property of an object, \<^verbatim>\<open>undefined\<close> on anything else,
  \<^verbatim>\<open>null\<close> included.
\<close>

fun opt_member :: "json \<Rightarrow> string \<Rightarrow> json option" where
  "opt_member (JObj kvs) k = map_of kvs k"
| "opt_member v k = None"

section \<open>Errors and the axios interface\<close>

text \<open>
  A thrown error, as the catch blocks read it: \<^verbatim>\<open>error.message\<close> and, on an axios
  error that carries the upstream's answer, \<^verbatim>\<open>error.response\<close> with its
  \<^verbatim>\<open>status\<close> and \<^verbatim>\<open>data\<close>. The \<^verbatim>\<open>data\<close> of a response is the parsed
  body, or the body's text as a string when it is not JSON (the empty string for an empty
  body): it is never \<^verbatim>\<open>undefined\<close>.
\<close>

record axios_response =
  status :: nat
  data :: json

record js_error =
  message :: string
  response :: "axios_response option"

text \<open>
  \<^verbatim>\<open>v.k\<close>: reading a property of \<^verbatim>\<open>null\<close> throws a TypeError (the text is V8's).
\<close>

fun member :: "json \<Rightarrow> string \<Rightarrow> js_error + json option" where
  "member JNull k =
     Inl \<lparr>message = ''Cannot read properties of null (reading '' @ [CHR 0x27] @ k @ [CHR 0x27] @ '')'',
          response = None\<rparr>"
| "member v k = Inr (opt_member v k)"

text \<open>
  One outbound request, as axios sends it: the instance's \<^verbatim>\<open>baseURL\<close> and headers
  (the defaults of \<^verbatim>\<open>axios.create\<close>), and the verb, path and payload of the call.
\<close>

record axios_request =
  http_method :: string
  req_baseURL :: string
  url :: string
  req_headers :: "(string \<times> string) list"
  payload :: json

record axios_instance =
  defaults_baseURL :: string
  defaults_headers :: "(string \<times> string) list"

definition axios_create :: "string \<Rightarrow> (string \<times> string) list \<Rightarrow> axios_instance" where
  "axios_create b hs = \<lparr>defaults_baseURL = b, defaults_headers = hs\<rparr>"

definition axios_post :: "axios_instance \<Rightarrow> string \<Rightarrow> json \<Rightarrow> axios_request" where
  "axios_post inst path d =
     \<lparr>http_method = ''POST'', req_baseURL = defaults_baseURL inst, url = path,
      req_headers = defaults_headers inst, payload = d\<rparr>"

text \<open>
  The upstream service is a parameter: it answers a request with a response (a 2xx
  status) or makes axios reject with an error.
\<close>

type_synonym upstream = "axios_request \<Rightarrow> js_error + axios_response"

text \<open>A substituted upstream that answers every request the same way.\<close>

fun mock_upstream :: "js_error + axios_response \<Rightarrow> upstream" where
  "mock_upstream answer request = answer"

section \<open>encodeURIComponent\<close>

text \<open>
  Strings are sequences of UTF-8 bytes. \<^verbatim>\<open>encodeURIComponent\<close> keeps the unreserved
  characters and writes every other byte as \<^verbatim>\<open>%XX\<close> in upper-case hexadecimal.
\<close>

definition unescaped :: "char \<Rightarrow> bool" where
  "unescaped c =
     (c \<in> set (''ABCDEFGHIJKLMNOPQRSTUVWXYZabcdefghijklmnopqrstuvwxyz0123456789-_.!~*()''
               @ [CHR 0x27]))"

definition hex_digit :: "nat \<Rightarrow> char" where
  "hex_digit n = ''0123456789ABCDEF'' ! (n mod 16)"

definition percent :: "char \<Rightarrow> string" where
  "percent c = [CHR ''%'', hex_digit (of_char c div 16), hex_digit (of_char c)]"

definition encodeURIComponent :: "string \<Rightarrow> string" where
  "encodeURIComponent s = concat (map (\<lambda>c. if unescaped c then [c] else percent c) s)"

section \<open>The Upstream Client (sendbird-client.js)\<close>

record SendBirdClient =
  applicationId :: string
  apiToken :: string
  baseURL :: string
  client :: axios_instance

text \<open>A template literal prints \<^verbatim>\<open>undefined\<close> for an undefined value.\<close>

fun interpolate :: "string option \<Rightarrow> string" where
  "interpolate None = ''undefined''"
| "interpolate (Some s) = s"

text \<open>
  The constructor reads \<^verbatim>\<open>process.env\<close> (a map from names to strings) and throws
  when either value is falsy.
\<close>

definition SendBirdClient_new :: "(string \<rightharpoonup> string) \<Rightarrow> js_error + SendBirdClient" where
  "SendBirdClient_new env =
     (let applicationId = env ''SENDBIRD_APPLICATION_ID'';
          apiToken = env ''SENDBIRD_API_TOKEN'';
          baseURL = ''https://api-'' @ interpolate applicationId @ ''.sendbird.com''
      in if \<not> truthy_string applicationId \<or> \<not> truthy_string apiToken
         then Inl \<lparr>message = ''SENDBIRD_APPLICATION_ID and SENDBIRD_API_TOKEN must be set in environment variables'',
                   response = None\<rparr>
         else Inr \<lparr>applicationId = interpolate applicationId,
                   apiToken = interpolate apiToken,
                   baseURL = baseURL,
                   client = axios_create baseURL
                     [(''Api-Token'', interpolate apiToken),
                      (''Content-Type'', ''application/json'')]\<rparr>)"

text \<open>
  Each operation returns the requests it sent and either the upstream body or the error
  it rethrows. The \<^verbatim>\<open>console\<close> calls are left out.
\<close>

definition getUserToken ::
  "SendBirdClient \<Rightarrow> upstream \<Rightarrow> string \<Rightarrow> axios_request list \<times> (js_error + json)" where
  "getUserToken this up userId =
     (let request = axios_post (client this)
                      (''/v3/users/'' @ encodeURIComponent userId @ ''/token'') (JObj [])
      in ([request],
          case up request of
            Inr res \<Rightarrow> Inr (data res)
          | Inl error \<Rightarrow> Inl error))"

definition createUser ::
  "SendBirdClient \<Rightarrow> upstream \<Rightarrow> json \<Rightarrow> axios_request list \<times> (js_error + json)" where
  "createUser this up userData =
     (let request = axios_post (client this) ''/v3/users'' userData
      in ([request],
          case up request of
            Inr res \<Rightarrow> Inr (data res)
          | Inl error \<Rightarrow> Inl error))"

section \<open>The Request Adapter (server.js)\<close>

record http_response =
  statusCode :: nat
  body :: json

text \<open>Start-up: a constructor that throws ends the process with exit code 1.\<close>

datatype startup = Exit nat | Listening SendBirdClient

definition init :: "(string \<rightharpoonup> string) \<Rightarrow> startup" where
  "init env =
     (case SendBirdClient_new env of
        Inl error \<Rightarrow> Exit 1
      | Inr sendbirdClient \<Rightarrow> Listening sendbirdClient)"

text \<open>
  The two catch blocks are the same code up to the fixed \<^verbatim>\<open>message\<close>:
  \<^verbatim>\<open>error.response?.status || 500\<close> and
  \<^verbatim>\<open>error.response?.data?.message || error.message\<close>.
\<close>

definition upstream_message :: "js_error \<Rightarrow> json option" where
  "upstream_message error = Option.bind (response error) (\<lambda>r. opt_member (data r) ''message'')"

definition catch_response :: "string \<Rightarrow> js_error \<Rightarrow> http_response" where
  "catch_response fixed error =
     (let statusCode =
            (case response error of
               None \<Rightarrow> 500
             | Some r \<Rightarrow> if status r = 0 then 500 else status r);
          errorMessage =
            (case upstream_message error of
               None \<Rightarrow> JStr (message error)
             | Some m \<Rightarrow> if truthy m then m else JStr (message error))
      in \<lparr>statusCode = statusCode,
          body = JObj [(''success'', JBool False),
                       (''error'', errorMessage),
                       (''message'', JStr fixed)]\<rparr>)"

text \<open>
  The try block of \<^verbatim>\<open>GET /api/users/:userId/token\<close>, on
  \<^verbatim>\<open>req.params.userId\<close>: the requests sent, and the response written or the error
  thrown. \<^verbatim>\<open>res.json\<close> without \<^verbatim>\<open>res.status\<close> answers 200.
\<close>

definition token_try ::
  "SendBirdClient \<Rightarrow> upstream \<Rightarrow> string option
     \<Rightarrow> axios_request list \<times> (js_error + http_response)" where
  "token_try sendbirdClient up userId =
     (if \<not> truthy_string userId
      then ([], Inr \<lparr>statusCode = 400,
                     body = JObj [(''success'', JBool False),
                                  (''error'', JStr ''User ID is required''),
                                  (''message'', JStr ''Please provide a valid user ID'')]\<rparr>)
      else case getUserToken sendbirdClient up (interpolate userId) of
             (calls, Inl error) \<Rightarrow> (calls, Inl error)
           | (calls, Inr tokenData) \<Rightarrow>
               (calls, Inr \<lparr>statusCode = 200,
                            body = JObj [(''success'', JBool True),
                                         (''data'', tokenData),
                                         (''message'', JStr (''Token retrieved successfully for user: ''
                                                             @ interpolate userId))]\<rparr>))"

definition token_handler ::
  "SendBirdClient \<Rightarrow> upstream \<Rightarrow> string option \<Rightarrow> axios_request list \<times> http_response" where
  "token_handler sendbirdClient up userId =
     (case token_try sendbirdClient up userId of
        (calls, Inr res) \<Rightarrow> (calls, res)
      | (calls, Inl error) \<Rightarrow> (calls, catch_response ''Failed to get user token'' error))"

text \<open>The try block of \<^verbatim>\<open>POST /api/users\<close>, on \<^verbatim>\<open>req.body\<close>.\<close>

definition create_try ::
  "SendBirdClient \<Rightarrow> upstream \<Rightarrow> json
     \<Rightarrow> axios_request list \<times> (js_error + http_response)" where
  "create_try sendbirdClient up userData =
     (case member userData ''user_id'' of
        Inl error \<Rightarrow> ([], Inl error)
      | Inr user_id \<Rightarrow>
          if \<not> truthy_opt user_id
          then ([], Inr \<lparr>statusCode = 400,
                         body = JObj [(''success'', JBool False),
                                      (''error'', JStr ''user_id is required''),
                                      (''message'', JStr ''Please provide a user_id in the request body'')]\<rparr>)
          else case createUser sendbirdClient up userData of
                 (calls, Inl error) \<Rightarrow> (calls, Inl error)
               | (calls, Inr newUser) \<Rightarrow>
                   (calls, Inr \<lparr>statusCode = 201,
                                body = JObj [(''success'', JBool True),
                                             (''data'', newUser),
                                             (''message'', JStr ''User created successfully'')]\<rparr>))"

definition create_handler ::
  "SendBirdClient \<Rightarrow> upstream \<Rightarrow> json \<Rightarrow> axios_request list \<times> http_response" where
  "create_handler sendbirdClient up userData =
     (case create_try sendbirdClient up userData of
        (calls, Inr res) \<Rightarrow> (calls, res)
      | (calls, Inl error) \<Rightarrow> (calls, catch_response ''Failed to create user'' error))"

text \<open>
  The five callbacks that server.js defines, each with what it reads from the request
  when Express calls it. (The library middleware that server.js mounts and that answers a
  request on its own, Swagger UI and CORS, is in \<open>dispatch\<close> in the section on
  routing.) \<open>Health now\<close> is \<^verbatim>\<open>GET /health\<close> with the clock's
  \<^verbatim>\<open>toISOString()\<close>; \<open>UserToken p\<close> is the token route with
  \<^verbatim>\<open>req.params.userId = p\<close>; \<open>CreateUser b\<close> is \<^verbatim>\<open>POST /api/users\<close> with
  \<^verbatim>\<open>req.body = b\<close>; \<open>NoRoute u\<close> is the \<^verbatim>\<open>'*'\<close> fallback with
  \<^verbatim>\<open>req.originalUrl = u\<close>; \<open>NextError e\<close> is an error \<open>e\<close> that a middleware passed on
  (the body parser on a malformed body, the router on a malformed escape), which reaches
  the four-argument error handler.

  The body parsers of the Express release this server runs on (the \<^verbatim>\<open>'*'\<close> path of the
  fallback is an Express 4 pattern) leave \<^verbatim>\<open>req.body\<close> an object or an array:
  \<^verbatim>\<open>{}\<close> when the request had no body they parse, and an error passed on when the
  JSON text is anything else. So \<open>CreateUser JNull\<close> is not a request the handler
  receives; the model still says what the code would do with it. In the same way the
  token handler tests for a missing or empty \<^verbatim>\<open>userId\<close>, and the model says what it
  does with one, but the router never delivers one: which request becomes which of these
  is the function \<open>route\<close> of the section on routing.
\<close>

datatype callback =
    Health string
  | UserToken "string option"
  | CreateUser json
  | NoRoute string
  | NextError js_error

fun app :: "SendBirdClient \<Rightarrow> upstream \<Rightarrow> callback \<Rightarrow> axios_request list \<times> http_response" where
  "app sendbirdClient up (Health now) =
     ([], \<lparr>statusCode = 200,
           body = JObj [(''status'', JStr ''OK''),
                        (''timestamp'', JStr now),
                        (''service'', JStr ''SendBird API Server'')]\<rparr>)"
| "app sendbirdClient up (UserToken userId) = token_handler sendbirdClient up userId"
| "app sendbirdClient up (CreateUser userData) = create_handler sendbirdClient up userData"
| "app sendbirdClient up (NoRoute originalUrl) =
     ([], \<lparr>statusCode = 404,
           body = JObj [(''success'', JBool False),
                        (''error'', JStr ''Endpoint not found''),
                        (''message'', JStr (''The requested endpoint '' @ originalUrl @ '' does not exist'')),
                        (''availableEndpoints'',
                           JArr [JStr ''GET /health'',
                                 JStr ''GET /api/users/:userId/token'',
                                 JStr ''POST /api/users'',
                                 JStr ''GET /api-docs''])]\<rparr>)"
| "app sendbirdClient up (NextError error) =
     ([], \<lparr>statusCode = 500,
           body = JObj [(''success'', JBool False),
                        (''error'', JStr ''Internal server error''),
                        (''message'', JStr ''Something went wrong on the server'')]\<rparr>)"

section \<open>Reading a response\<close>

definition field :: "json \<Rightarrow> string \<Rightarrow> json option" where
  "field v k = opt_member v k"

definition has_field :: "json \<Rightarrow> string \<Rightarrow> bool" where
  "has_field v k = (field v k \<noteq> None)"

text \<open>
  The Envelope: an object with a boolean \<^verbatim>\<open>success\<close>; with \<^verbatim>\<open>success\<close> true it has
  \<^verbatim>\<open>data\<close> and a string \<^verbatim>\<open>message\<close> and no \<^verbatim>\<open>error\<close>; with \<^verbatim>\<open>success\<close>
  false it has a string \<^verbatim>\<open>error\<close> and a string \<^verbatim>\<open>message\<close> and no \<^verbatim>\<open>data\<close>.
  Other fields (the 404 fallback's \<^verbatim>\<open>availableEndpoints\<close>) may come with them.
\<close>

fun is_string :: "json \<Rightarrow> bool" where
  "is_string (JStr s) = True"
| "is_string v = False"

definition string_field :: "json \<Rightarrow> string \<Rightarrow> bool" where
  "string_field r k = (case field r k of Some v \<Rightarrow> is_string v | None \<Rightarrow> False)"

definition is_envelope :: "json \<Rightarrow> bool" where
  "is_envelope r =
     (field r ''success'' = Some (JBool True)
        \<and> has_field r ''data'' \<and> string_field r ''message'' \<and> \<not> has_field r ''error''
      \<or> field r ''success'' = Some (JBool False)
        \<and> string_field r ''error'' \<and> string_field r ''message'' \<and> \<not> has_field r ''data'')"

fun is_health :: "callback \<Rightarrow> bool" where
  "is_health (Health now) = True"
| "is_health i = False"

section \<open>A concrete configuration\<close>

definition test_env :: "string \<rightharpoonup> string" where
  "test_env = [''SENDBIRD_APPLICATION_ID'' \<mapsto> ''APP'', ''SENDBIRD_API_TOKEN'' \<mapsto> ''secret'']"

definition test_client :: SendBirdClient where
  "test_client =
     \<lparr>applicationId = ''APP'', apiToken = ''secret'',
      baseURL = ''https://api-APP.sendbird.com'',
      client = \<lparr>defaults_baseURL = ''https://api-APP.sendbird.com'',
                defaults_headers = [(''Api-Token'', ''secret''),
                                    (''Content-Type'', ''application/json'')]\<rparr>\<rparr>"

section \<open>decodeURIComponent\<close>

text \<open>
  Express decodes a route parameter with \<^verbatim>\<open>decodeURIComponent\<close>. Every \<^verbatim>\<open>%XX\<close>
  becomes the byte it names; a byte of 128 or more must start a well-formed UTF-8 sequence
  whose other bytes are escapes too. \<open>None\<close> is the URIError.
\<close>

definition hex_value :: "char \<Rightarrow> nat option" where
  "hex_value c =
     map_of (zip ''0123456789abcdefABCDEF''
                 [0, 1, 2, 3, 4, 5, 6, 7, 8, 9, 10, 11, 12, 13, 14, 15, 10, 11, 12, 13, 14, 15]) c"

datatype uri_token = Literal char | Escape nat

fun uri_tokens :: "string \<Rightarrow> uri_token list option" where
  "uri_tokens [] = Some []"
| "uri_tokens (c # cs) =
     (if c = CHR ''%''
      then (case cs of
              h1 # h2 # rest \<Rightarrow>
                (case (hex_value h1, hex_value h2) of
                   (Some a, Some b) \<Rightarrow>
                     map_option ((#) (Escape (16 * a + b))) (uri_tokens rest)
                 | _ \<Rightarrow> None)
            | _ \<Rightarrow> None)
      else map_option ((#) (Literal c)) (uri_tokens cs))"

definition continuation :: "nat \<Rightarrow> bool" where
  "continuation b = (128 \<le> b \<and> b \<le> 191)"

fun valid_utf8 :: "nat list \<Rightarrow> bool" where
  "valid_utf8 [b0, b1] = (194 \<le> b0 \<and> b0 \<le> 223 \<and> continuation b1)"
| "valid_utf8 [b0, b1, b2] =
     ((b0 = 224 \<and> 160 \<le> b1 \<and> b1 \<le> 191
       \<or> (225 \<le> b0 \<and> b0 \<le> 236 \<or> 238 \<le> b0 \<and> b0 \<le> 239) \<and> continuation b1
       \<or> b0 = 237 \<and> 128 \<le> b1 \<and> b1 \<le> 159)
      \<and> continuation b2)"
| "valid_utf8 [b0, b1, b2, b3] =
     ((b0 = 240 \<and> 144 \<le> b1 \<and> b1 \<le> 191
       \<or> 241 \<le> b0 \<and> b0 \<le> 243 \<and> continuation b1
       \<or> b0 = 244 \<and> 128 \<le> b1 \<and> b1 \<le> 143)
      \<and> continuation b2 \<and> continuation b3)"
| "valid_utf8 bs = False"

fun decode_tokens :: "uri_token list \<Rightarrow> string option" where
  "decode_tokens [] = Some []"
| "decode_tokens (Literal c # ts) = map_option ((#) c) (decode_tokens ts)"
| "decode_tokens (Escape b # ts) =
     (if b < 128 then map_option ((#) (char_of b)) (decode_tokens ts)
      else if 192 \<le> b \<and> b < 224
      then (case ts of
              Escape b1 # rest \<Rightarrow>
                if valid_utf8 [b, b1]
                then map_option ((@) (map char_of [b, b1])) (decode_tokens rest)
                else None
            | _ \<Rightarrow> None)
      else if 224 \<le> b \<and> b < 240
      then (case ts of
              Escape b1 # Escape b2 # rest \<Rightarrow>
                if valid_utf8 [b, b1, b2]
                then map_option ((@) (map char_of [b, b1, b2])) (decode_tokens rest)
                else None
            | _ \<Rightarrow> None)
      else if 240 \<le> b \<and> b < 248
      then (case ts of
              Escape b1 # Escape b2 # Escape b3 # rest \<Rightarrow>
                if valid_utf8 [b, b1, b2, b3]
                then map_option ((@) (map char_of [b, b1, b2, b3])) (decode_tokens rest)
                else None
            | _ \<Rightarrow> None)
      else None)"

definition decodeURIComponent :: "string \<Rightarrow> string option" where
  "decodeURIComponent s = Option.bind (uri_tokens s) decode_tokens"

section \<open>Routing\<close>

text \<open>
  An inbound request, as the middleware and the router of server.js read it: the method,
  \<^verbatim>\<open>req.originalUrl\<close>, and what the libraries contribute: the outcome of the body
  parsers (the error they pass on, or \<^verbatim>\<open>req.body\<close>: an object or an array,
  \<^verbatim>\<open>{}\<close> when there was no body to parse), the clock's
  \<^verbatim>\<open>toISOString()\<close>, and the status and text Swagger UI answers with when the request
  is one it serves.
\<close>

record http_request =
  req_method :: string
  req_originalUrl :: string
  parsed :: "js_error + json"
  clock :: string
  swagger :: "nat \<times> string"

text \<open>
  What becomes of a request: Express calls one of the callbacks of server.js, or a library
  middleware that server.js mounts answers it itself: Swagger UI under
  \<^verbatim>\<open>/api-docs\<close> (an HTML page, an asset or a redirect), and the CORS middleware for an
  \<^verbatim>\<open>OPTIONS\<close> request (status 204, no body).
\<close>

datatype dispatch =
    Invokes callback
  | SwaggerUi nat string
  | CorsPreflight

text \<open>
  An answer is what a callback of server.js passes to \<^verbatim>\<open>res.status(...).json(...)\<close>, or
  the status and text a library writes. What Express and Node then put on the wire (no
  body for a \<^verbatim>\<open>HEAD\<close> request or with status 304) is not part of the model.
\<close>

datatype answer =
    Written http_response
  | Library nat string

definition respond ::
  "SendBirdClient \<Rightarrow> upstream \<Rightarrow> dispatch \<Rightarrow> axios_request list \<times> answer" where
  "respond sendbirdClient up d =
     (case d of
        Invokes i \<Rightarrow> (fst (app sendbirdClient up i), Written (snd (app sendbirdClient up i)))
      | SwaggerUi s t \<Rightarrow> ([], Library s t)
      | CorsPreflight \<Rightarrow> ([], Library 204 []))"

text \<open>
  The path patterns of server.js are matched as Express 4 matches them: on the path
  without the query string, letters of the pattern in either case, and one trailing slash
  allowed. A \<^verbatim>\<open>:userId\<close> segment matches one or more characters other than a slash.
\<close>

definition to_lower :: "char \<Rightarrow> char" where
  "to_lower c =
     (case map_of (zip ''ABCDEFGHIJKLMNOPQRSTUVWXYZ'' ''abcdefghijklmnopqrstuvwxyz'') c of
        Some l \<Rightarrow> l
      | None \<Rightarrow> c)"

definition pathname :: "string \<Rightarrow> string" where
  "pathname u = takeWhile (\<lambda>c. c \<noteq> CHR ''?'') u"

fun split_slash :: "string \<Rightarrow> string list" where
  "split_slash [] = [[]]"
| "split_slash (c # cs) =
     (if c = CHR ''/'' then [] # split_slash cs
      else (case split_slash cs of
              s # ss \<Rightarrow> (c # s) # ss
            | [] \<Rightarrow> [[c]]))"

definition segments :: "string \<Rightarrow> string list" where
  "segments p =
     (let ss = split_slash p
      in if 2 < length ss \<and> last ss = [] then butlast ss else ss)"

definition matches :: "string list \<Rightarrow> string list \<Rightarrow> bool" where
  "matches pattern ss = (map (map to_lower) ss = pattern)"

text \<open>The \<^verbatim>\<open>userId\<close> segment of a path that matches \<^verbatim>\<open>/api/users/:userId/token\<close>.\<close>

definition token_param :: "string list \<Rightarrow> string option" where
  "token_param ss =
     (case ss of
        [e, a, u, p, t] \<Rightarrow>
          if matches ['''', ''api'', ''users''] [e, a, u] \<and> p \<noteq> [] \<and> matches [''token''] [t]
          then Some p else None
      | _ \<Rightarrow> None)"

definition under_api_docs :: "string \<Rightarrow> bool" where
  "under_api_docs p =
     (case split_slash p of
        e # d # rest \<Rightarrow> matches ['''', ''api-docs''] [e, d]
      | _ \<Rightarrow> False)"

text \<open>
  The middleware and routes in the order server.js registers them: \<^verbatim>\<open>cors()\<close>, the body
  parsers, Swagger UI, \<^verbatim>\<open>GET /health\<close>, the token route (a parameter that does not decode
  is an error passed on), \<^verbatim>\<open>POST /api/users\<close>, and the \<^verbatim>\<open>'*'\<close> fallback.
  \<^verbatim>\<open>app.get\<close> serves \<^verbatim>\<open>HEAD\<close> as well.
\<close>

definition route :: "http_request \<Rightarrow> dispatch" where
  "route q =
     (if req_method q = ''OPTIONS'' then CorsPreflight
      else case parsed q of
             Inl e \<Rightarrow> Invokes (NextError e)
           | Inr b \<Rightarrow>
               let p = pathname (req_originalUrl q);
                   get = (req_method q = ''GET'' \<or> req_method q = ''HEAD'')
               in if under_api_docs p then SwaggerUi (fst (swagger q)) (snd (swagger q))
                  else if get \<and> matches ['''', ''health''] (segments p)
                  then Invokes (Health (clock q))
                  else if get \<and> token_param (segments p) \<noteq> None
                  then (case decodeURIComponent (the (token_param (segments p))) of
                          None \<Rightarrow>
                            Invokes (NextError
                              \<lparr>message = ''Failed to decode param '' @ [CHR 0x27]
                                           @ the (token_param (segments p)) @ [CHR 0x27],
                               response = None\<rparr>)
                        | Some userId \<Rightarrow> Invokes (UserToken (Some userId)))
                  else if req_method q = ''POST'' \<and> matches ['''', ''api'', ''users''] (segments p)
                  then Invokes (CreateUser b)
                  else Invokes (NoRoute (req_originalUrl q)))"

definition server ::
  "SendBirdClient \<Rightarrow> upstream \<Rightarrow> http_request \<Rightarrow> axios_request list \<times> answer" where
  "server sendbirdClient up q = respond sendbirdClient up (route q)"

fun answered_by_library :: "dispatch \<Rightarrow> bool" where
  "answered_by_library (Invokes i) = False"
| "answered_by_library d = True"

fun health_check :: "dispatch \<Rightarrow> bool" where
  "health_check (Invokes i) = is_health i"
| "health_check d = False"

section \<open>The handlers, case by case\<close>

lemma getUserToken_fst:
  "fst (getUserToken sb up userId)
     = [axios_post (client sb) (''/v3/users/'' @ encodeURIComponent userId @ ''/token'') (JObj [])]"
  by (simp add: getUserToken_def Let_def)

lemma getUserToken_snd:
  "snd (getUserToken sb up userId)
     = (case up (axios_post (client sb)
                   (''/v3/users/'' @ encodeURIComponent userId @ ''/token'') (JObj [])) of
          Inl e \<Rightarrow> Inl e
        | Inr r \<Rightarrow> Inr (data r))"
  by (simp add: getUserToken_def Let_def split: sum.splits)

lemma createUser_fst:
  "fst (createUser sb up userData) = [axios_post (client sb) ''/v3/users'' userData]"
  by (simp add: createUser_def Let_def)

lemma createUser_snd:
  "snd (createUser sb up userData)
     = (case up (axios_post (client sb) ''/v3/users'' userData) of
          Inl e \<Rightarrow> Inl e
        | Inr r \<Rightarrow> Inr (data r))"
  by (simp add: createUser_def Let_def split: sum.splits)

lemma member_not_null: "v \<noteq> JNull \<Longrightarrow> member v k = Inr (opt_member v k)"
  by (cases v) simp_all

lemma opt_member_Some_not_null: "opt_member v k = Some x \<Longrightarrow> v \<noteq> JNull"
  by (cases v) simp_all

lemma token_handler_cases:
  "token_handler sb up userId =
     (if \<not> truthy_string userId
      then ([], \<lparr>statusCode = 400,
                 body = JObj [(''success'', JBool False),
                              (''error'', JStr ''User ID is required''),
                              (''message'', JStr ''Please provide a valid user ID'')]\<rparr>)
      else (fst (getUserToken sb up (interpolate userId)),
            case snd (getUserToken sb up (interpolate userId)) of
              Inl e \<Rightarrow> catch_response ''Failed to get user token'' e
            | Inr tokenData \<Rightarrow>
                \<lparr>statusCode = 200,
                 body = JObj [(''success'', JBool True),
                              (''data'', tokenData),
                              (''message'', JStr (''Token retrieved successfully for user: ''
                                                  @ interpolate userId))]\<rparr>))"
  by (simp add: token_handler_def token_try_def split: prod.splits sum.splits)

lemma create_handler_cases:
  "create_handler sb up userData =
     (case member userData ''user_id'' of
        Inl e \<Rightarrow> ([], catch_response ''Failed to create user'' e)
      | Inr user_id \<Rightarrow>
          if \<not> truthy_opt user_id
          then ([], \<lparr>statusCode = 400,
                     body = JObj [(''success'', JBool False),
                                  (''error'', JStr ''user_id is required''),
                                  (''message'', JStr ''Please provide a user_id in the request body'')]\<rparr>)
          else (fst (createUser sb up userData),
                case snd (createUser sb up userData) of
                  Inl e \<Rightarrow> catch_response ''Failed to create user'' e
                | Inr newUser \<Rightarrow>
                    \<lparr>statusCode = 201,
                     body = JObj [(''success'', JBool True),
                                  (''data'', newUser),
                                  (''message'', JStr ''User created successfully'')]\<rparr>))"
  by (simp add: create_handler_def create_try_def split: prod.splits sum.splits)

lemma app_calls:
  "request \<in> set (fst (app sb up i)) \<Longrightarrow>
     req_baseURL request = defaults_baseURL (client sb)
   \<and> req_headers request = defaults_headers (client sb)
   \<and> http_method request = ''POST''"
proof (cases i)
  case (UserToken userId)
  assume "request \<in> set (fst (app sb up i))"
  then show ?thesis
    unfolding UserToken
    by (auto simp: token_handler_cases getUserToken_fst axios_post_def split: if_splits)
next
  case (CreateUser userData)
  assume "request \<in> set (fst (app sb up i))"
  then show ?thesis
    unfolding CreateUser
    by (auto simp: create_handler_cases createUser_fst axios_post_def
             split: if_splits sum.splits)
qed simp_all

lemma new_fails_iff:
  "(\<exists>e. SendBirdClient_new env = Inl e)
     \<longleftrightarrow> (env ''SENDBIRD_APPLICATION_ID'' = None \<or> env ''SENDBIRD_APPLICATION_ID'' = Some []
          \<or> env ''SENDBIRD_API_TOKEN'' = None \<or> env ''SENDBIRD_API_TOKEN'' = Some [])"
  by (cases "env ''SENDBIRD_APPLICATION_ID''"; cases "env ''SENDBIRD_API_TOKEN''")
     (auto simp: SendBirdClient_new_def Let_def)

lemma new_succeeds:
  assumes "SendBirdClient_new env = Inr sb"
  shows "\<exists>a t. env ''SENDBIRD_APPLICATION_ID'' = Some a \<and> a \<noteq> []
             \<and> env ''SENDBIRD_API_TOKEN'' = Some t \<and> t \<noteq> []
             \<and> sb = \<lparr>applicationId = a, apiToken = t,
                      baseURL = ''https://api-'' @ a @ ''.sendbird.com'',
                      client = \<lparr>defaults_baseURL = ''https://api-'' @ a @ ''.sendbird.com'',
                                defaults_headers = [(''Api-Token'', t),
                                                    (''Content-Type'', ''application/json'')]\<rparr>\<rparr>"
  using assms
  by (cases "env ''SENDBIRD_APPLICATION_ID''"; cases "env ''SENDBIRD_API_TOKEN''")
     (auto simp: SendBirdClient_new_def Let_def axios_create_def split: if_splits)

section \<open>Routing, case by case\<close>









lemma catch_response_shape:
  "is_envelope (body (catch_response fixed e))
   \<or> field (body (catch_response fixed e)) ''success'' = Some (JBool False)
     \<and> string_field (body (catch_response fixed e)) ''message''
     \<and> \<not> has_field (body (catch_response fixed e)) ''data''
     \<and> (\<exists>m. upstream_message e = Some m \<and> truthy m \<and> \<not> is_string m
             \<and> field (body (catch_response fixed e)) ''error'' = Some m)"
proof (cases "upstream_message e")
  case None
  then show ?thesis
    by (simp add: catch_response_def Let_def is_envelope_def field_def has_field_def
                  string_field_def)
next
  case (Some m)
  show ?thesis
  proof (cases "truthy m \<and> \<not> is_string m")
    case True
    with Some show ?thesis
      by (simp add: catch_response_def Let_def field_def has_field_def string_field_def)
  next
    case False
    with Some show ?thesis
      by (auto simp: catch_response_def Let_def is_envelope_def field_def has_field_def
                     string_field_def)
  qed
qed

section \<open>The Envelope invariant\<close>

text \<open>
  C1. Every response of the token handler, of the user-creation handler and of the 404
  fallback has \<^verbatim>\<open>success\<close> true or false; with \<^verbatim>\<open>success\<close> true it has
  \<^verbatim>\<open>data\<close> and \<^verbatim>\<open>message\<close> and no \<^verbatim>\<open>error\<close>; with \<^verbatim>\<open>success\<close> false it
  has \<^verbatim>\<open>error\<close> and \<^verbatim>\<open>message\<close> and no \<^verbatim>\<open>data\<close>.
\<close>

theorem envelope_branches_exclusive:
  assumes "i = UserToken userId \<or> i = CreateUser userData \<or> i = NoRoute originalUrl"
  shows "(field (body (snd (app sb up i))) ''success'' = Some (JBool True)
          \<or> field (body (snd (app sb up i))) ''success'' = Some (JBool False))
       \<and> (field (body (snd (app sb up i))) ''success'' = Some (JBool True) \<longrightarrow>
            has_field (body (snd (app sb up i))) ''data''
          \<and> has_field (body (snd (app sb up i))) ''message''
          \<and> \<not> has_field (body (snd (app sb up i))) ''error'')
       \<and> (field (body (snd (app sb up i))) ''success'' = Some (JBool False) \<longrightarrow>
            has_field (body (snd (app sb up i))) ''error''
          \<and> has_field (body (snd (app sb up i))) ''message''
          \<and> \<not> has_field (body (snd (app sb up i))) ''data'')"
proof -
  consider (token) "i = UserToken userId" | (create) "i = CreateUser userData"
    | (noroute) "i = NoRoute originalUrl"
    using assms by blast
  then show ?thesis
  proof cases
    case token
    show ?thesis
      unfolding token
      by (auto simp: token_handler_cases catch_response_def Let_def field_def has_field_def
               split: sum.splits)
  next
    case create
    show ?thesis
      unfolding create
      by (auto simp: create_handler_cases catch_response_def Let_def field_def has_field_def
               split: sum.splits)
  next
    case noroute
    show ?thesis
      unfolding noroute by (simp add: field_def has_field_def)
  qed
qed

text \<open>
  A created user (the success branch) and a token request for an unknown user that the
  upstream answers with 404 (the failure branch).
\<close>

theorem envelope_branches_exclusive_witness:
  "field (body (snd (app test_client
       (mock_upstream (Inr \<lparr>status = 200, data = JObj [(''user_id'', JStr ''ann'')]\<rparr>))
       (CreateUser (JObj [(''user_id'', JStr ''ann'')]))))) ''success'' = Some (JBool True)
   \<and> has_field (body (snd (app test_client
       (mock_upstream (Inr \<lparr>status = 200, data = JObj [(''user_id'', JStr ''ann'')]\<rparr>))
       (CreateUser (JObj [(''user_id'', JStr ''ann'')]))))) ''data''
   \<and> \<not> has_field (body (snd (app test_client
       (mock_upstream (Inr \<lparr>status = 200, data = JObj [(''user_id'', JStr ''ann'')]\<rparr>))
       (CreateUser (JObj [(''user_id'', JStr ''ann'')]))))) ''error''
   \<and> field (body (snd (app test_client
       (mock_upstream (Inl \<lparr>message = ''Request failed with status code 404'',
                            response = Some \<lparr>status = 404, data = JObj []\<rparr>\<rparr>))
       (UserToken (Some ''ghost''))))) ''success'' = Some (JBool False)
   \<and> has_field (body (snd (app test_client
       (mock_upstream (Inl \<lparr>message = ''Request failed with status code 404'',
                            response = Some \<lparr>status = 404, data = JObj []\<rparr>\<rparr>))
       (UserToken (Some ''ghost''))))) ''error''
   \<and> \<not> has_field (body (snd (app test_client
       (mock_upstream (Inl \<lparr>message = ''Request failed with status code 404'',
                            response = Some \<lparr>status = 404, data = JObj []\<rparr>\<rparr>))
       (UserToken (Some ''ghost''))))) ''data''"
proof -
  have s: "field (body (snd (app test_client
       (mock_upstream (Inr \<lparr>status = 200, data = JObj [(''user_id'', JStr ''ann'')]\<rparr>))
       (CreateUser (JObj [(''user_id'', JStr ''ann'')]))))) ''success'' = Some (JBool True)"
    by (simp add: create_handler_cases createUser_snd field_def)
  have f: "field (body (snd (app test_client
       (mock_upstream (Inl \<lparr>message = ''Request failed with status code 404'',
                            response = Some \<lparr>status = 404, data = JObj []\<rparr>\<rparr>))
       (UserToken (Some ''ghost''))))) ''success'' = Some (JBool False)"
    by (simp add: token_handler_cases getUserToken_snd catch_response_def Let_def field_def)
  show ?thesis
    using s f
      envelope_branches_exclusive
        [of "CreateUser (JObj [(''user_id'', JStr ''ann'')])" None
            "JObj [(''user_id'', JStr ''ann'')]" "[]" test_client
            "mock_upstream (Inr \<lparr>status = 200, data = JObj [(''user_id'', JStr ''ann'')]\<rparr>)"]
      envelope_branches_exclusive
        [of "UserToken (Some ''ghost'')" "Some ''ghost''" JNull "[]" test_client
            "mock_upstream (Inl \<lparr>message = ''Request failed with status code 404'',
                                 response = Some \<lparr>status = 404, data = JObj []\<rparr>\<rparr>)"]
    by simp
qed

section \<open>Upstream failures\<close>

text \<open>
  C2 (as the code has it). When the Upstream Client call of a handler fails with an error
  \<open>e\<close>, the response status is the status of \<^verbatim>\<open>e.response\<close> when there is a
  response and its status is not zero, and 500 otherwise; the \<^verbatim>\<open>error\<close> field is the
  \<^verbatim>\<open>message\<close> of the upstream body when there is one and it is truthy (then it is
  passed on as it is, string or not), and the error's own message otherwise; the
  \<^verbatim>\<open>message\<close> field is the fixed string of the path.
\<close>

theorem upstream_failure_response:
  assumes "userId \<noteq> [] \<and> i = UserToken (Some userId) \<and> fixed = ''Failed to get user token''
             \<and> snd (getUserToken sb up userId) = Inl e
         \<or> truthy_opt (opt_member userData ''user_id'') \<and> i = CreateUser userData
             \<and> fixed = ''Failed to create user''
             \<and> snd (createUser sb up userData) = Inl e"
  shows "statusCode (snd (app sb up i))
           = (case response e of
                None \<Rightarrow> 500
              | Some r \<Rightarrow> if status r = 0 then 500 else status r)
       \<and> field (body (snd (app sb up i))) ''error''
           = Some (case upstream_message e of
                     None \<Rightarrow> JStr (message e)
                   | Some m \<Rightarrow> if truthy m then m else JStr (message e))
       \<and> field (body (snd (app sb up i))) ''message'' = Some (JStr fixed)
       \<and> field (body (snd (app sb up i))) ''success'' = Some (JBool False)
       \<and> \<not> has_field (body (snd (app sb up i))) ''data''"
proof -
  have shape: "statusCode (catch_response fixed e)
           = (case response e of
                None \<Rightarrow> 500
              | Some r \<Rightarrow> if status r = 0 then 500 else status r)
       \<and> field (body (catch_response fixed e)) ''error''
           = Some (case upstream_message e of
                     None \<Rightarrow> JStr (message e)
                   | Some m \<Rightarrow> if truthy m then m else JStr (message e))
       \<and> field (body (catch_response fixed e)) ''message'' = Some (JStr fixed)
       \<and> field (body (catch_response fixed e)) ''success'' = Some (JBool False)
       \<and> \<not> has_field (body (catch_response fixed e)) ''data''"
    by (simp add: catch_response_def Let_def field_def has_field_def)
  from assms show ?thesis
  proof (elim disjE conjE)
    assume a: "userId \<noteq> []" "i = UserToken (Some userId)" "fixed = ''Failed to get user token''"
      "snd (getUserToken sb up userId) = Inl e"
    have "snd (app sb up i) = catch_response fixed e"
      using a by (simp add: token_handler_cases)
    then show ?thesis using shape by simp
  next
    assume a: "truthy_opt (opt_member userData ''user_id'')" "i = CreateUser userData"
      "fixed = ''Failed to create user''" "snd (createUser sb up userData) = Inl e"
    from a(1) have "userData \<noteq> JNull" by (cases userData) simp_all
    then have "snd (app sb up i) = catch_response fixed e"
      using a by (simp add: create_handler_cases member_not_null)
    then show ?thesis using shape by simp
  qed
qed

text \<open>The upstream answers a token request for an unknown user with 404 and a message.\<close>

theorem upstream_failure_response_witness:
  "statusCode (snd (app test_client
      (mock_upstream (Inl \<lparr>message = ''Request failed with status code 404'',
                           response = Some \<lparr>status = 404,
                                            data = JObj [(''error'', JBool True),
                                                         (''message'', JStr ''User not found''),
                                                         (''code'', JNum 400201)]\<rparr>\<rparr>))
      (UserToken (Some ''ghost'')))) = 404
   \<and> field (body (snd (app test_client
      (mock_upstream (Inl \<lparr>message = ''Request failed with status code 404'',
                           response = Some \<lparr>status = 404,
                                            data = JObj [(''error'', JBool True),
                                                         (''message'', JStr ''User not found''),
                                                         (''code'', JNum 400201)]\<rparr>\<rparr>))
      (UserToken (Some ''ghost''))))) ''error'' = Some (JStr ''User not found'')
   \<and> field (body (snd (app test_client
      (mock_upstream (Inl \<lparr>message = ''Request failed with status code 404'',
                           response = Some \<lparr>status = 404,
                                            data = JObj [(''error'', JBool True),
                                                         (''message'', JStr ''User not found''),
                                                         (''code'', JNum 400201)]\<rparr>\<rparr>))
      (UserToken (Some ''ghost''))))) ''message'' = Some (JStr ''Failed to get user token'')"
  using upstream_failure_response
    [of "''ghost''" "UserToken (Some ''ghost'')" "''Failed to get user token''" test_client
        "mock_upstream (Inl \<lparr>message = ''Request failed with status code 404'',
                           response = Some \<lparr>status = 404,
                                            data = JObj [(''error'', JBool True),
                                                         (''message'', JStr ''User not found''),
                                                         (''code'', JNum 400201)]\<rparr>\<rparr>)"
        "\<lparr>message = ''Request failed with status code 404'',
                           response = Some \<lparr>status = 404,
                                            data = JObj [(''error'', JBool True),
                                                         (''message'', JStr ''User not found''),
                                                         (''code'', JNum 400201)]\<rparr>\<rparr>"
        JNull]
  by (simp add: getUserToken_snd upstream_message_def)

text \<open>
  The upstream body carries a \<^verbatim>\<open>message\<close> that is the empty string: the message is
  present, and the \<^verbatim>\<open>error\<close> field is not it but the local error's message.
\<close>

theorem upstream_empty_message_counterexample:
  "upstream_message \<lparr>message = ''Request failed with status code 400'',
                     response = Some \<lparr>status = 400, data = JObj [(''message'', JStr [])]\<rparr>\<rparr>
     = Some (JStr [])
   \<and> field (body (snd (app test_client
        (mock_upstream (Inl \<lparr>message = ''Request failed with status code 400'',
                             response = Some \<lparr>status = 400,
                                              data = JObj [(''message'', JStr [])]\<rparr>\<rparr>))
        (UserToken (Some ''u''))))) ''error''
     = Some (JStr ''Request failed with status code 400'')
   \<and> field (body (snd (app test_client
        (mock_upstream (Inl \<lparr>message = ''Request failed with status code 400'',
                             response = Some \<lparr>status = 400,
                                              data = JObj [(''message'', JStr [])]\<rparr>\<rparr>))
        (UserToken (Some ''u''))))) ''error''
     \<noteq> upstream_message \<lparr>message = ''Request failed with status code 400'',
                     response = Some \<lparr>status = 400, data = JObj [(''message'', JStr [])]\<rparr>\<rparr>"
  by (simp add: upstream_message_def token_handler_cases getUserToken_snd catch_response_def
                field_def)

section \<open>Validation\<close>




text \<open>
  C9. The user-creation check is a truthiness check: a body whose \<^verbatim>\<open>user_id\<close> is the
  empty string, 0, false or null is answered with the same 400 response and nothing is
  sent; a body whose \<^verbatim>\<open>user_id\<close> is truthy, a non-zero number for one, passes and is
  forwarded as the payload of the outbound request.
\<close>

theorem user_id_checked_by_truthiness:
  "(opt_member userData ''user_id'' = Some v
      \<and> (v = JStr [] \<or> v = JNum 0 \<or> v = JBool False \<or> v = JNull) \<longrightarrow>
      app sb up (CreateUser userData)
        = ([], \<lparr>statusCode = 400,
                 body = JObj [(''success'', JBool False),
                              (''error'', JStr ''user_id is required''),
                              (''message'', JStr ''Please provide a user_id in the request body'')]\<rparr>))
   \<and> (opt_member userData ''user_id'' = Some v \<and> truthy v \<longrightarrow>
        fst (app sb up (CreateUser userData))
          = [\<lparr>http_method = ''POST'', req_baseURL = defaults_baseURL (client sb),
              url = ''/v3/users'', req_headers = defaults_headers (client sb),
              payload = userData\<rparr>])
   \<and> (n \<noteq> 0 \<longrightarrow> truthy (JNum n))"
proof (intro conjI impI)
  assume a: "opt_member userData ''user_id'' = Some v
      \<and> (v = JStr [] \<or> v = JNum 0 \<or> v = JBool False \<or> v = JNull)"
  then have "userData \<noteq> JNull" by (auto dest: opt_member_Some_not_null)
  moreover from a have "\<not> truthy v" by auto
  ultimately show "app sb up (CreateUser userData)
        = ([], \<lparr>statusCode = 400,
                 body = JObj [(''success'', JBool False),
                              (''error'', JStr ''user_id is required''),
                              (''message'', JStr ''Please provide a user_id in the request body'')]\<rparr>)"
    using a by (simp add: create_handler_cases member_not_null)
next
  assume a: "opt_member userData ''user_id'' = Some v \<and> truthy v"
  then have "userData \<noteq> JNull" by (auto dest: opt_member_Some_not_null)
  then show "fst (app sb up (CreateUser userData))
          = [\<lparr>http_method = ''POST'', req_baseURL = defaults_baseURL (client sb),
              url = ''/v3/users'', req_headers = defaults_headers (client sb),
              payload = userData\<rparr>]"
    using a by (simp add: create_handler_cases member_not_null createUser_fst axios_post_def)
next
  assume "n \<noteq> 0" then show "truthy (JNum n)" by simp
qed

text \<open>The \<^verbatim>\<open>user_id\<close> 0 is rejected, the \<^verbatim>\<open>user_id\<close> 7 is forwarded.\<close>

theorem user_id_checked_by_truthiness_witness:
  "app test_client (mock_upstream (Inr \<lparr>status = 200, data = JObj []\<rparr>))
       (CreateUser (JObj [(''user_id'', JNum 0)]))
     = ([], \<lparr>statusCode = 400,
              body = JObj [(''success'', JBool False),
                           (''error'', JStr ''user_id is required''),
                           (''message'', JStr ''Please provide a user_id in the request body'')]\<rparr>)
   \<and> fst (app test_client (mock_upstream (Inr \<lparr>status = 200, data = JObj []\<rparr>))
            (CreateUser (JObj [(''user_id'', JNum 7)])))
     = [\<lparr>http_method = ''POST'', req_baseURL = ''https://api-APP.sendbird.com'',
         url = ''/v3/users'',
         req_headers = [(''Api-Token'', ''secret''), (''Content-Type'', ''application/json'')],
         payload = JObj [(''user_id'', JNum 7)]\<rparr>]"
  using user_id_checked_by_truthiness
    [of "JObj [(''user_id'', JNum 0)]" "JNum 0" test_client
        "mock_upstream (Inr \<lparr>status = 200, data = JObj []\<rparr>)" 7]
    user_id_checked_by_truthiness
    [of "JObj [(''user_id'', JNum 7)]" "JNum 7" test_client
        "mock_upstream (Inr \<lparr>status = 200, data = JObj []\<rparr>)" 7]
  by (simp add: test_client_def)

section \<open>Successful calls\<close>

text \<open>
  C4. A token request with a non-empty \<^verbatim>\<open>userId\<close> whose upstream call succeeds is
  answered with status 200 and the Envelope whose \<^verbatim>\<open>data\<close> is the upstream body as it
  came and whose \<^verbatim>\<open>message\<close> ends with the \<^verbatim>\<open>userId\<close> as the handler received it
  (decoded). The witness is the request for \<^verbatim>\<open>User%202\<close>, which the handler receives
  as \<^verbatim>\<open>User 2\<close>.
\<close>

theorem token_success_envelope:
  assumes "userId \<noteq> []"
    and "up \<lparr>http_method = ''POST'', req_baseURL = defaults_baseURL (client sb),
             url = ''/v3/users/'' @ encodeURIComponent userId @ ''/token'',
             req_headers = defaults_headers (client sb), payload = JObj []\<rparr> = Inr r"
  shows "app sb up (UserToken (Some userId))
     = ([\<lparr>http_method = ''POST'', req_baseURL = defaults_baseURL (client sb),
          url = ''/v3/users/'' @ encodeURIComponent userId @ ''/token'',
          req_headers = defaults_headers (client sb), payload = JObj []\<rparr>],
        \<lparr>statusCode = 200,
         body = JObj [(''success'', JBool True),
                      (''data'', data r),
                      (''message'', JStr (''Token retrieved successfully for user: '' @ userId))]\<rparr>)"
  using assms
  by (simp add: token_handler_cases getUserToken_fst getUserToken_snd axios_post_def)

theorem token_success_envelope_witness:
  "app test_client
     (mock_upstream (Inr \<lparr>status = 200,
                          data = JObj [(''access_token'', JStr ''tok123''),
                                       (''expires_at'', JNum 1700000000)]\<rparr>))
     (UserToken (Some ''User 2''))
   = ([\<lparr>http_method = ''POST'', req_baseURL = ''https://api-APP.sendbird.com'',
        url = ''/v3/users/User%202/token'',
        req_headers = [(''Api-Token'', ''secret''), (''Content-Type'', ''application/json'')],
        payload = JObj []\<rparr>],
      \<lparr>statusCode = 200,
       body = JObj [(''success'', JBool True),
                    (''data'', JObj [(''access_token'', JStr ''tok123''),
                                     (''expires_at'', JNum 1700000000)]),
                    (''message'', JStr ''Token retrieved successfully for user: User 2'')]\<rparr>)"
  using token_success_envelope
    [of "''User 2''"
        "mock_upstream (Inr \<lparr>status = 200,
                              data = JObj [(''access_token'', JStr ''tok123''),
                                           (''expires_at'', JNum 1700000000)]\<rparr>)"
        test_client
        "\<lparr>status = 200,
          data = JObj [(''access_token'', JStr ''tok123''), (''expires_at'', JNum 1700000000)]\<rparr>"]
  by (simp add: test_client_def encodeURIComponent_def unescaped_def percent_def hex_digit_def)

text \<open>
  C5. A user-creation request whose body has a non-empty string \<^verbatim>\<open>user_id\<close> sends one
  outbound request, a POST to \<^verbatim>\<open>/v3/users\<close> whose payload is the inbound body itself;
  when the upstream answers it, the response is status 201 with \<^verbatim>\<open>success\<close> true,
  \<^verbatim>\<open>data\<close> the upstream body as it came, and the message
  \<^verbatim>\<open>User created successfully\<close>.
\<close>

theorem create_user_forwards_verbatim:
  assumes "opt_member userData ''user_id'' = Some (JStr s)" and "s \<noteq> []"
  shows "fst (app sb up (CreateUser userData))
           = [\<lparr>http_method = ''POST'', req_baseURL = defaults_baseURL (client sb),
               url = ''/v3/users'', req_headers = defaults_headers (client sb),
               payload = userData\<rparr>]
       \<and> (\<forall>r. up \<lparr>http_method = ''POST'', req_baseURL = defaults_baseURL (client sb),
                   url = ''/v3/users'', req_headers = defaults_headers (client sb),
                   payload = userData\<rparr> = Inr r \<longrightarrow>
              snd (app sb up (CreateUser userData))
                = \<lparr>statusCode = 201,
                   body = JObj [(''success'', JBool True),
                                (''data'', data r),
                                (''message'', JStr ''User created successfully'')]\<rparr>)"
proof -
  from assms(1) have "userData \<noteq> JNull" by (rule opt_member_Some_not_null)
  with assms show ?thesis
    by (simp add: create_handler_cases member_not_null createUser_fst createUser_snd
                  axios_post_def)
qed

text \<open>
  A body with \<^verbatim>\<open>issue_access_token\<close> true, and an upstream that answers with the user
  and a token.
\<close>

theorem create_user_forwards_verbatim_witness:
  "app test_client
     (mock_upstream (Inr \<lparr>status = 200,
                          data = JObj [(''user_id'', JStr ''john_doe''),
                                       (''nickname'', JStr ''John Doe''),
                                       (''access_token'', JStr ''tok123'')]\<rparr>))
     (CreateUser (JObj [(''user_id'', JStr ''john_doe''),
                        (''nickname'', JStr ''John Doe''),
                        (''issue_access_token'', JBool True)]))
   = ([\<lparr>http_method = ''POST'', req_baseURL = ''https://api-APP.sendbird.com'',
        url = ''/v3/users'',
        req_headers = [(''Api-Token'', ''secret''), (''Content-Type'', ''application/json'')],
        payload = JObj [(''user_id'', JStr ''john_doe''),
                        (''nickname'', JStr ''John Doe''),
                        (''issue_access_token'', JBool True)]\<rparr>],
      \<lparr>statusCode = 201,
       body = JObj [(''success'', JBool True),
                    (''data'', JObj [(''user_id'', JStr ''john_doe''),
                                     (''nickname'', JStr ''John Doe''),
                                     (''access_token'', JStr ''tok123'')]),
                    (''message'', JStr ''User created successfully'')]\<rparr>)"
  using create_user_forwards_verbatim
    [of "JObj [(''user_id'', JStr ''john_doe''),
               (''nickname'', JStr ''John Doe''),
               (''issue_access_token'', JBool True)]"
        "''john_doe''" test_client
        "mock_upstream (Inr \<lparr>status = 200,
                          data = JObj [(''user_id'', JStr ''john_doe''),
                                       (''nickname'', JStr ''John Doe''),
                                       (''access_token'', JStr ''tok123'')]\<rparr>)"]
  by (simp add: test_client_def prod_eq_iff)

section \<open>Failures outside the Upstream Client\<close>

text \<open>
  C6. An error that a middleware passes on (a malformed body, for one) is answered with
  status 500, the error \<^verbatim>\<open>Internal server error\<close> and the message
  \<^verbatim>\<open>Something went wrong on the server\<close>: the response is the same whatever the error
  is, so nothing of it shows. These are all the failures there are outside the two
  operations of the Upstream Client: an error that reaches the catch block of the token
  handler, or of the user-creation handler on a body that is not null, is the error the
  operation raised.
\<close>

theorem unhandled_error_fixed_response:
  "app sb up (NextError e)
     = ([], \<lparr>statusCode = 500,
              body = JObj [(''success'', JBool False),
                           (''error'', JStr ''Internal server error''),
                           (''message'', JStr ''Something went wrong on the server'')]\<rparr>)
   \<and> (\<forall>calls err. token_try sb up userId = (calls, Inl err) \<longrightarrow>
          snd (getUserToken sb up (interpolate userId)) = Inl err)
   \<and> (userData \<noteq> JNull \<longrightarrow>
        (\<forall>calls err. create_try sb up userData = (calls, Inl err) \<longrightarrow>
           snd (createUser sb up userData) = Inl err))"
proof (intro conjI allI impI)
  show "app sb up (NextError e)
     = ([], \<lparr>statusCode = 500,
              body = JObj [(''success'', JBool False),
                           (''error'', JStr ''Internal server error''),
                           (''message'', JStr ''Something went wrong on the server'')]\<rparr>)"
    by simp
next
  fix calls err
  assume "token_try sb up userId = (calls, Inl err)"
  then show "snd (getUserToken sb up (interpolate userId)) = Inl err"
    by (auto simp: token_try_def split: if_splits prod.splits sum.splits)
next
  fix calls err
  assume "userData \<noteq> JNull" and "create_try sb up userData = (calls, Inl err)"
  then show "snd (createUser sb up userData) = Inl err"
    by (auto simp: create_try_def member_not_null split: if_splits prod.splits sum.splits)
qed

text \<open>
  The body parser's error on a truncated JSON text; and a network failure of the upstream,
  which is the error the two try blocks throw.
\<close>

theorem unhandled_error_fixed_response_witness:
  "app test_client (mock_upstream (Inl \<lparr>message = ''Network Error'', response = None\<rparr>))
       (NextError \<lparr>message = ''Unexpected end of JSON input'', response = None\<rparr>)
     = ([], \<lparr>statusCode = 500,
              body = JObj [(''success'', JBool False),
                           (''error'', JStr ''Internal server error''),
                           (''message'', JStr ''Something went wrong on the server'')]\<rparr>)
   \<and> snd (token_try test_client
            (mock_upstream (Inl \<lparr>message = ''Network Error'', response = None\<rparr>))
            (Some ''u''))
       = Inl \<lparr>message = ''Network Error'', response = None\<rparr>
   \<and> snd (getUserToken test_client
            (mock_upstream (Inl \<lparr>message = ''Network Error'', response = None\<rparr>)) ''u'')
       = Inl \<lparr>message = ''Network Error'', response = None\<rparr>
   \<and> snd (create_try test_client
            (mock_upstream (Inl \<lparr>message = ''Network Error'', response = None\<rparr>))
            (JObj [(''user_id'', JStr ''u'')]))
       = Inl \<lparr>message = ''Network Error'', response = None\<rparr>
   \<and> snd (createUser test_client
            (mock_upstream (Inl \<lparr>message = ''Network Error'', response = None\<rparr>))
            (JObj [(''user_id'', JStr ''u'')]))
       = Inl \<lparr>message = ''Network Error'', response = None\<rparr>"
  using unhandled_error_fixed_response
    [of test_client "mock_upstream (Inl \<lparr>message = ''Network Error'', response = None\<rparr>)"
        "\<lparr>message = ''Unexpected end of JSON input'', response = None\<rparr>"
        "Some ''u''" "JObj [(''user_id'', JStr ''u'')]"]
  by (simp add: token_try_def create_try_def getUserToken_def createUser_def Let_def)

section \<open>The HTTP surface\<close>

text \<open>
  C7 (as the code has it). Every response that a callback of server.js writes with
  \<^verbatim>\<open>res.json\<close>, but the one of \<^verbatim>\<open>GET /health\<close>, is an Envelope, with one
  exception to the types of its fields: after a failure of the upstream call the
  \<^verbatim>\<open>error\<close> field is the \<^verbatim>\<open>message\<close> of the upstream body as it came when that is
  truthy and not a string. The requests that Swagger UI (under \<^verbatim>\<open>/api-docs\<close>) and the
  CORS middleware (\<^verbatim>\<open>OPTIONS\<close>) answer get no Envelope either: they are left out by
  the second hypothesis.
\<close>

theorem envelope_except_health:
  assumes "\<not> health_check d" and "\<not> answered_by_library d"
  shows "\<exists>r. snd (respond sb up d) = Written r
           \<and> (is_envelope (body r)
                \<or> field (body r) ''success'' = Some (JBool False)
                  \<and> string_field (body r) ''message''
                  \<and> \<not> has_field (body r) ''data''
                  \<and> (\<exists>request e m. request \<in> set (fst (respond sb up d))
                         \<and> up request = Inl e
                         \<and> upstream_message e = Some m \<and> truthy m \<and> \<not> is_string m
                         \<and> field (body r) ''error'' = Some m))"
proof -
  from assms(2) obtain i where d: "d = Invokes i" by (cases d) auto
  with assms(1) have nh: "\<not> is_health i" by simp
  let ?P = "\<lambda>calls r. is_envelope (body r)
                \<or> field (body r) ''success'' = Some (JBool False)
                  \<and> string_field (body r) ''message''
                  \<and> \<not> has_field (body r) ''data''
                  \<and> (\<exists>request e m. request \<in> set calls
                         \<and> up request = Inl e
                         \<and> upstream_message e = Some m \<and> truthy m \<and> \<not> is_string m
                         \<and> field (body r) ''error'' = Some m)"
  have "?P (fst (app sb up i)) (snd (app sb up i))"
  proof (cases i)
    case (Health now)
    with nh show ?thesis by simp
  next
    case (UserToken userId)
    show ?thesis
    proof (cases "truthy_string userId")
      case False
      then show ?thesis
        unfolding UserToken
        by (simp add: token_handler_cases is_envelope_def field_def has_field_def
                      string_field_def)
    next
      case True
      let ?req = "axios_post (client sb)
                    (''/v3/users/'' @ encodeURIComponent (interpolate userId) @ ''/token'')
                    (JObj [])"
      show ?thesis
      proof (cases "up ?req")
        case (Inr res)
        with True show ?thesis
          unfolding UserToken
          by (simp add: token_handler_cases getUserToken_snd is_envelope_def field_def
                        has_field_def string_field_def)
      next
        case (Inl e)
        with True have r: "snd (app sb up (UserToken userId))
                             = catch_response ''Failed to get user token'' e"
          and c: "fst (app sb up (UserToken userId)) = [?req]"
          by (simp_all add: token_handler_cases getUserToken_snd getUserToken_fst)
        show ?thesis
          unfolding UserToken r c
          using catch_response_shape [of "''Failed to get user token''" e] Inl by auto
      qed
    qed
  next
    case (CreateUser userData)
    show ?thesis
    proof (cases "member userData ''user_id''")
      case (Inl e)
      then have n: "userData = JNull" by (cases userData) simp_all
      show ?thesis
        unfolding CreateUser n
        by (simp add: create_handler_cases catch_response_def Let_def upstream_message_def
                      is_envelope_def field_def has_field_def string_field_def)
    next
      case (Inr user_id)
      show ?thesis
      proof (cases "truthy_opt user_id")
        case False
        with Inr show ?thesis
          unfolding CreateUser
          by (simp add: create_handler_cases is_envelope_def field_def has_field_def
                        string_field_def)
      next
        case True
        let ?req = "axios_post (client sb) ''/v3/users'' userData"
        show ?thesis
        proof (cases "up ?req")
          case (Inr res)
          with True \<open>member userData ''user_id'' = Inr user_id\<close> show ?thesis
            unfolding CreateUser
            by (simp add: create_handler_cases createUser_snd is_envelope_def field_def
                          has_field_def string_field_def)
        next
          case (Inl e)
          with True \<open>member userData ''user_id'' = Inr user_id\<close>
          have r: "snd (app sb up (CreateUser userData))
                     = catch_response ''Failed to create user'' e"
            and c: "fst (app sb up (CreateUser userData)) = [?req]"
            by (simp_all add: create_handler_cases createUser_snd createUser_fst)
          show ?thesis
            unfolding CreateUser r c
            using catch_response_shape [of "''Failed to create user''" e] Inl by auto
        qed
      qed
    qed
  next
    case (NoRoute originalUrl)
    show ?thesis
      unfolding NoRoute
      by (simp add: is_envelope_def field_def has_field_def string_field_def)
  next
    case (NextError e)
    show ?thesis
      unfolding NextError
      by (simp add: is_envelope_def field_def has_field_def string_field_def)
  qed
  then show ?thesis by (simp add: d respond_def)
qed

text \<open>The request \<^verbatim>\<open>GET /nonexistent\<close>.\<close>

theorem envelope_except_health_witness:
  "\<not> health_check (route \<lparr>req_method = ''GET'', req_originalUrl = ''/nonexistent'',
                            parsed = Inr (JObj []), clock = ''2025-01-01T00:00:00.000Z'',
                            swagger = (200, ''<!DOCTYPE html>'')\<rparr>)
   \<and> \<not> answered_by_library (route \<lparr>req_method = ''GET'', req_originalUrl = ''/nonexistent'',
                            parsed = Inr (JObj []), clock = ''2025-01-01T00:00:00.000Z'',
                            swagger = (200, ''<!DOCTYPE html>'')\<rparr>)
   \<and> snd (server test_client (mock_upstream (Inr \<lparr>status = 200, data = JObj []\<rparr>))
            \<lparr>req_method = ''GET'', req_originalUrl = ''/nonexistent'',
             parsed = Inr (JObj []), clock = ''2025-01-01T00:00:00.000Z'',
             swagger = (200, ''<!DOCTYPE html>'')\<rparr>)
       = Written
           \<lparr>statusCode = 404,
            body = JObj [(''success'', JBool False),
                         (''error'', JStr ''Endpoint not found''),
                         (''message'', JStr ''The requested endpoint /nonexistent does not exist''),
                         (''availableEndpoints'',
                            JArr [JStr ''GET /health'',
                                  JStr ''GET /api/users/:userId/token'',
                                  JStr ''POST /api/users'',
                                  JStr ''GET /api-docs''])]\<rparr>
   \<and> is_envelope
        (JObj [(''success'', JBool False),
               (''error'', JStr ''Endpoint not found''),
               (''message'', JStr ''The requested endpoint /nonexistent does not exist''),
               (''availableEndpoints'',
                  JArr [JStr ''GET /health'',
                        JStr ''GET /api/users/:userId/token'',
                        JStr ''POST /api/users'',
                        JStr ''GET /api-docs''])])"
proof -
  have r: "route \<lparr>req_method = ''GET'', req_originalUrl = ''/nonexistent'',
                  parsed = Inr (JObj []), clock = ''2025-01-01T00:00:00.000Z'',
                  swagger = (200, ''<!DOCTYPE html>'')\<rparr>
             = Invokes (NoRoute ''/nonexistent'')"
    by (simp add: route_def pathname_def under_api_docs_def matches_def segments_def
                  token_param_def to_lower_def)
  show ?thesis
    using envelope_except_health
      [of "route \<lparr>req_method = ''GET'', req_originalUrl = ''/nonexistent'',
                  parsed = Inr (JObj []), clock = ''2025-01-01T00:00:00.000Z'',
                  swagger = (200, ''<!DOCTYPE html>'')\<rparr>"
          test_client "mock_upstream (Inr \<lparr>status = 200, data = JObj []\<rparr>)"]
    by (simp add: r server_def respond_def upstream_message_def)
qed

text \<open>
  The response of \<^verbatim>\<open>GET /health\<close> has the fields \<^verbatim>\<open>status\<close>,
  \<^verbatim>\<open>timestamp\<close> and \<^verbatim>\<open>service\<close>, and no \<^verbatim>\<open>success\<close>: it is not an Envelope.
  Nor is the page Swagger UI answers \<^verbatim>\<open>GET /api-docs/\<close> with, nor the response to a
  token request that the upstream rejects with the body \<^verbatim>\<open>{message: 42}\<close>, whose
  \<^verbatim>\<open>error\<close> is the number 42.
\<close>

theorem health_not_envelope_counterexample:
  "body (snd (app test_client
        (mock_upstream (Inr \<lparr>status = 200, data = JObj []\<rparr>))
        (Health ''2025-01-01T00:00:00.000Z'')))
     = JObj [(''status'', JStr ''OK''),
             (''timestamp'', JStr ''2025-01-01T00:00:00.000Z''),
             (''service'', JStr ''SendBird API Server'')]
   \<and> \<not> is_envelope (body (snd (app test_client
        (mock_upstream (Inr \<lparr>status = 200, data = JObj []\<rparr>))
        (Health ''2025-01-01T00:00:00.000Z''))))
   \<and> server test_client (mock_upstream (Inr \<lparr>status = 200, data = JObj []\<rparr>))
        \<lparr>req_method = ''GET'', req_originalUrl = ''/health'', parsed = Inr (JObj []),
         clock = ''2025-01-01T00:00:00.000Z'', swagger = (200, ''<!DOCTYPE html>'')\<rparr>
     = ([], Written
          \<lparr>statusCode = 200,
           body = JObj [(''status'', JStr ''OK''),
                        (''timestamp'', JStr ''2025-01-01T00:00:00.000Z''),
                        (''service'', JStr ''SendBird API Server'')]\<rparr>)
   \<and> server test_client (mock_upstream (Inr \<lparr>status = 200, data = JObj []\<rparr>))
        \<lparr>req_method = ''GET'', req_originalUrl = ''/api-docs/'', parsed = Inr (JObj []),
         clock = ''2025-01-01T00:00:00.000Z'', swagger = (200, ''<!DOCTYPE html>'')\<rparr>
     = ([], Library 200 ''<!DOCTYPE html>'')
   \<and> body (snd (app test_client
        (mock_upstream (Inl \<lparr>message = ''Request failed with status code 400'',
                             response = Some \<lparr>status = 400,
                                              data = JObj [(''message'', JNum 42)]\<rparr>\<rparr>))
        (UserToken (Some ''u''))))
     = JObj [(''success'', JBool False),
             (''error'', JNum 42),
             (''message'', JStr ''Failed to get user token'')]
   \<and> \<not> is_envelope (body (snd (app test_client
        (mock_upstream (Inl \<lparr>message = ''Request failed with status code 400'',
                             response = Some \<lparr>status = 400,
                                              data = JObj [(''message'', JNum 42)]\<rparr>\<rparr>))
        (UserToken (Some ''u'')))))"
  by (simp add: is_envelope_def field_def has_field_def string_field_def server_def respond_def
                route_def pathname_def under_api_docs_def matches_def segments_def
                token_param_def to_lower_def token_handler_cases getUserToken_snd
                catch_response_def upstream_message_def)

section \<open>The Upstream Client\<close>

text \<open>
  C8. The constructor throws exactly when the application identifier or the API token is
  missing from the environment or is the empty string, and start-up then exits with code 1
  instead of listening. A constructed client has the base address
  \<^verbatim>\<open>https://api-{applicationId}.sendbird.com\<close>, and every outbound request the server
  sends goes to that base address with the token in the \<^verbatim>\<open>Api-Token\<close> header and the
  content type \<^verbatim>\<open>application/json\<close>.
\<close>

theorem client_construction:
  "((\<exists>e. SendBirdClient_new env = Inl e)
      \<longleftrightarrow> (env ''SENDBIRD_APPLICATION_ID'' = None \<or> env ''SENDBIRD_APPLICATION_ID'' = Some []
           \<or> env ''SENDBIRD_API_TOKEN'' = None \<or> env ''SENDBIRD_API_TOKEN'' = Some []))
   \<and> ((init env = Exit 1) \<longleftrightarrow> (\<exists>e. SendBirdClient_new env = Inl e))
   \<and> (\<forall>sb. SendBirdClient_new env = Inr sb \<longrightarrow>
         init env = Listening sb
       \<and> env ''SENDBIRD_APPLICATION_ID'' = Some (applicationId sb)
       \<and> env ''SENDBIRD_API_TOKEN'' = Some (apiToken sb)
       \<and> baseURL sb = ''https://api-'' @ applicationId sb @ ''.sendbird.com''
       \<and> (\<forall>up i. \<forall>request \<in> set (fst (app sb up i)).
             req_baseURL request = baseURL sb
           \<and> map_of (req_headers request) ''Api-Token'' = Some (apiToken sb)
           \<and> map_of (req_headers request) ''Content-Type'' = Some ''application/json''))"
proof (intro conjI allI impI ballI)
  show "(\<exists>e. SendBirdClient_new env = Inl e)
      \<longleftrightarrow> (env ''SENDBIRD_APPLICATION_ID'' = None \<or> env ''SENDBIRD_APPLICATION_ID'' = Some []
           \<or> env ''SENDBIRD_API_TOKEN'' = None \<or> env ''SENDBIRD_API_TOKEN'' = Some [])"
    by (rule new_fails_iff)
next
  show "(init env = Exit 1) \<longleftrightarrow> (\<exists>e. SendBirdClient_new env = Inl e)"
    by (simp add: init_def split: sum.splits)
next
  fix sb assume ok: "SendBirdClient_new env = Inr sb"
  then show "init env = Listening sb" by (simp add: init_def)
  from new_succeeds [OF ok] obtain a t where
    at: "env ''SENDBIRD_APPLICATION_ID'' = Some a" "env ''SENDBIRD_API_TOKEN'' = Some t"
    and sb: "sb = \<lparr>applicationId = a, apiToken = t,
                      baseURL = ''https://api-'' @ a @ ''.sendbird.com'',
                      client = \<lparr>defaults_baseURL = ''https://api-'' @ a @ ''.sendbird.com'',
                                defaults_headers = [(''Api-Token'', t),
                                                    (''Content-Type'', ''application/json'')]\<rparr>\<rparr>"
    by blast
  show "env ''SENDBIRD_APPLICATION_ID'' = Some (applicationId sb)" using at sb by simp
  show "env ''SENDBIRD_API_TOKEN'' = Some (apiToken sb)" using at sb by simp
  show "baseURL sb = ''https://api-'' @ applicationId sb @ ''.sendbird.com''" using sb by simp
  fix up i request
  assume "request \<in> set (fst (app sb up i))"
  then have r: "req_baseURL request = defaults_baseURL (client sb)"
    "req_headers request = defaults_headers (client sb)"
    using app_calls by blast+
  show "req_baseURL request = baseURL sb" using r sb by simp
  show "map_of (req_headers request) ''Api-Token'' = Some (apiToken sb)" using r sb by simp
  show "map_of (req_headers request) ''Content-Type'' = Some ''application/json''"
    using r sb by simp
qed

text \<open>
  The environment with both values set, the same with an empty token, and the same
  without the application identifier.
\<close>

theorem client_construction_witness:
  "SendBirdClient_new test_env = Inr test_client
   \<and> init test_env = Listening test_client
   \<and> baseURL test_client = ''https://api-APP.sendbird.com''
   \<and> init (test_env(''SENDBIRD_API_TOKEN'' := Some [])) = Exit 1
   \<and> init (test_env(''SENDBIRD_APPLICATION_ID'' := None)) = Exit 1"
proof -
  have ok: "SendBirdClient_new test_env = Inr test_client"
    by (simp add: SendBirdClient_new_def test_env_def test_client_def Let_def axios_create_def)
  have 1: "init test_env = Listening test_client"
    "baseURL test_client = ''https://api-'' @ applicationId test_client @ ''.sendbird.com''"
    using client_construction [of test_env] ok by blast+
  have 2: "init (test_env(''SENDBIRD_API_TOKEN'' := Some [])) = Exit 1"
    using client_construction [of "test_env(''SENDBIRD_API_TOKEN'' := Some [])"] by simp
  have 3: "init (test_env(''SENDBIRD_APPLICATION_ID'' := None)) = Exit 1"
    using client_construction [of "test_env(''SENDBIRD_APPLICATION_ID'' := None)"] by simp
  show ?thesis using ok 1 2 3 by (simp add: test_client_def)
qed

text \<open>
  C10. \<^verbatim>\<open>getUserToken\<close> sends exactly one request: a POST to
  \<^verbatim>\<open>/v3/users/{encodeURIComponent(userId)}/token\<close> whose payload is the empty object,
  whatever the caller's request was; it returns the upstream body when the call succeeds
  and rethrows the caught error as it is when the call fails.
\<close>

theorem getUserToken_request_and_rethrow:
  "fst (getUserToken this up userId)
     = [\<lparr>http_method = ''POST'', req_baseURL = defaults_baseURL (client this),
         url = ''/v3/users/'' @ encodeURIComponent userId @ ''/token'',
         req_headers = defaults_headers (client this), payload = JObj []\<rparr>]
   \<and> snd (getUserToken this up userId)
     = (case up \<lparr>http_method = ''POST'', req_baseURL = defaults_baseURL (client this),
                 url = ''/v3/users/'' @ encodeURIComponent userId @ ''/token'',
                 req_headers = defaults_headers (client this), payload = JObj []\<rparr> of
          Inl error \<Rightarrow> Inl error
        | Inr res \<Rightarrow> Inr (data res))"
  by (simp add: getUserToken_def axios_post_def Let_def split: sum.splits)

text \<open>A rejected call for \<^verbatim>\<open>User 2\<close>: the request sent and the error rethrown.\<close>

theorem getUserToken_request_and_rethrow_witness:
  "getUserToken test_client
     (mock_upstream (Inl \<lparr>message = ''Request failed with status code 400'',
                          response = Some \<lparr>status = 400, data = JStr ''no''\<rparr>\<rparr>))
     ''User 2''
   = ([\<lparr>http_method = ''POST'', req_baseURL = ''https://api-APP.sendbird.com'',
        url = ''/v3/users/User%202/token'',
        req_headers = [(''Api-Token'', ''secret''), (''Content-Type'', ''application/json'')],
        payload = JObj []\<rparr>],
      Inl \<lparr>message = ''Request failed with status code 400'',
           response = Some \<lparr>status = 400, data = JStr ''no''\<rparr>\<rparr>)"
  using getUserToken_request_and_rethrow
    [of test_client
        "mock_upstream (Inl \<lparr>message = ''Request failed with status code 400'',
                          response = Some \<lparr>status = 400, data = JStr ''no''\<rparr>\<rparr>)"
        "''User 2''"]
  by (simp add: prod_eq_iff test_client_def encodeURIComponent_def unescaped_def percent_def
                hex_digit_def)

end
